theory Spec2Isabelle
  imports Complex_Main "HOL-Library.Sublist"
begin

section \<open>Python values used by \<open>openrlhf/models/model.py\<close>\<close>

text \<open>
  Exceptions are values: every function that can raise returns \<open>exn + 'a\<close>, with
  \<open>Inl\<close> for the raised exception. All constructors stand for subclasses of Python's
  \<open>Exception\<close>; \<open>Raised\<close> is an exception of an external library, with its text.
  Floating-point numbers are idealised as reals (rounding, infinities and NaN are outside
  the model; in particular a division by a zero \<open>std\<close> is HOL's \<open>x / 0 = 0\<close>, not the
  tensor library's infinity).
\<close>

datatype exn =
    AssertionError string
  | AttributeError
  | KeyError
  | IndexError
  | ValueError
  | TypeError
  | ZeroDivisionError
  | RuntimeError
  | Raised string

subsection \<open>Indices and slices\<close>

text \<open>Python indexing of a dimension of size \<open>n\<close>: negative indices count from the end.\<close>

definition py_index :: "nat \<Rightarrow> int \<Rightarrow> exn + nat" where
  "py_index n i =
     (let j = (if i < 0 then i + int n else i)
      in if 0 \<le> j \<and> j < int n then Inr (nat j) else Inl IndexError)"

text \<open>A bound of a Python slice over a dimension of size \<open>n\<close>: clamped, never an error.\<close>

definition py_slice_bound :: "nat \<Rightarrow> int \<Rightarrow> nat" where
  "py_slice_bound n i = (if i < 0 then nat (max 0 (i + int n)) else min n (nat i))"

subsection \<open>Two-dimensional tensors\<close>

text \<open>
  A tensor of shape (batch, \<open>ncols\<close>) is its list of rows together with the size of
  dimension 1, which an empty batch would otherwise lose. \<open>size(1)\<close> is \<open>ncols\<close>.
  A tensor of the library always satisfies \<open>wf_tensor\<close>.
\<close>

record 'a tensor2 =
  ncols :: nat
  rows :: "'a list list"

definition wf_tensor :: "'a tensor2 \<Rightarrow> bool" where
  "wf_tensor t = list_all (\<lambda>r. length r = ncols t) (rows t)"

definition map_tensor :: "('a \<Rightarrow> 'b) \<Rightarrow> 'a tensor2 \<Rightarrow> 'b tensor2" where
  "map_tensor f t = \<lparr>ncols = ncols t, rows = map (map f) (rows t)\<rparr>"

text \<open>\<open>t[:, i]\<close>\<close>

definition select_col :: "'a tensor2 \<Rightarrow> int \<Rightarrow> exn + 'a list" where
  "select_col t i =
     (case py_index (ncols t) i of
        Inl e \<Rightarrow> Inl e
      | Inr j \<Rightarrow> Inr (map (\<lambda>r. r ! j) (rows t)))"

text \<open>\<open>t[:, :stop]\<close> and \<open>t[:, start:]\<close>\<close>

definition slice_cols_to :: "'a tensor2 \<Rightarrow> int \<Rightarrow> 'a tensor2" where
  "slice_cols_to t stop =
     (let k = py_slice_bound (ncols t) stop
      in \<lparr>ncols = k, rows = map (take k) (rows t)\<rparr>)"

definition slice_cols_from :: "'a tensor2 \<Rightarrow> int \<Rightarrow> 'a tensor2" where
  "slice_cols_from t start =
     (let k = py_slice_bound (ncols t) start
      in \<lparr>ncols = ncols t - k, rows = map (drop k) (rows t)\<rparr>)"

text \<open>\<open>t.fliplr()\<close>: every row reversed.\<close>

definition fliplr :: "'a tensor2 \<Rightarrow> 'a tensor2" where
  "fliplr t = \<lparr>ncols = ncols t, rows = map rev (rows t)\<rparr>"

text \<open>
  \<open>t.argmax(dim=1, keepdim=True)\<close>: for each row the index of its first maximal entry
  (the library documents that ties go to the first one); a reduction over a dimension of
  size 0 raises. The (batch, 1) result is given by its single column.
\<close>

definition argmax_row :: "int list \<Rightarrow> nat" where
  "argmax_row xs = length (takeWhile (\<lambda>x. x < fold max xs (hd xs)) xs)"

definition argmax_dim1 :: "int tensor2 \<Rightarrow> exn + nat list" where
  "argmax_dim1 t = (if ncols t = 0 then Inl IndexError else Inr (map argmax_row (rows t)))"

text \<open>
  \<open>t.gather(dim=1, index=idx).squeeze(1)\<close> for an index of shape (batch', 1), given by
  its single column: the index may not have more rows than \<open>t\<close>, every index must lie
  in \<open>0 ..< ncols t\<close>, and row \<open>b\<close> of the result is \<open>t[b, idx[b]]\<close>.
\<close>

definition gather_col :: "'a tensor2 \<Rightarrow> int list \<Rightarrow> exn + 'a list" where
  "gather_col t idx =
     (if length (rows t) < length idx then Inl RuntimeError
      else if list_ex (\<lambda>i. i < 0 \<or> int (ncols t) \<le> i) idx then Inl RuntimeError
      else Inr (map2 (\<lambda>r i. r ! nat i) (rows t) idx))"

section \<open>The model with a value head\<close>

text \<open>
  What the backbone returns: the per-token hidden states, of shape
  (batch, sequence length, hidden size), as a two-dimensional tensor of hidden vectors.
\<close>

record outputs =
  last_hidden_state :: "real list tensor2"

text \<open>
  The fields of \<open>LLMForSequenceRegression\<close>, the same in the reward and the critic
  class. The backbone (\<open>getattr(self, self.base_model_prefix)\<close>) is a function of the
  token ids and the attention mask that may raise; \<open>self_mean\<close> and \<open>self_std\<close> are the
  one-element buffers \<open>mean\<close> and \<open>std\<close>, which broadcast as scalars.
\<close>

record 'ids module =
  base_model :: "'ids \<Rightarrow> int tensor2 option \<Rightarrow> exn + outputs"
  value_head_weight :: "real list"
  self_normalize_reward :: bool
  self_mean :: real
  self_std :: real
  training :: bool

text \<open>
  \<open>self.value_head(h).squeeze(-1)\<close> at one position, for the layer
  \<open>nn.Linear(hidden_size, 1, bias=False)\<close>: the dot product of the weight with the
  hidden vector. The backbone is built from the same configuration, so its hidden vectors
  have the weight's length.
\<close>

definition value_head :: "'ids module \<Rightarrow> real list \<Rightarrow> real" where
  "value_head self h = sum_list (map2 (*) (value_head_weight self) h)"

subsection \<open>Reward model: \<open>forward\<close>, lines 167-193\<close>

datatype reward_result =
    Reward "real list"
  | RewardOutputs "real list" outputs

definition reward_forward ::
  "'ids module \<Rightarrow> 'ids \<Rightarrow> int tensor2 option \<Rightarrow> bool \<Rightarrow> exn + reward_result" where
  "reward_forward self input_ids attention_mask return_output =
     (case base_model self input_ids attention_mask of
        Inl e \<Rightarrow> Inl e
      | Inr outs \<Rightarrow>
          let last_hidden_states = last_hidden_state outs;
              values = map_tensor (value_head self) last_hidden_states
          in (case
                (if training self then select_col values (- 1)
                 else
                   (case attention_mask of
                      None \<Rightarrow> Inl AttributeError
                    | Some am \<Rightarrow>
                        (case argmax_dim1 (fliplr am) of
                           Inl e \<Rightarrow> Inl e
                         | Inr first_one \<Rightarrow>
                             let eos_indices = map (\<lambda>a. int (ncols am) - 1 - int a) first_one
                             in (case gather_col values eos_indices of
                                   Inl e \<Rightarrow> Inl e
                                 | Inr reward \<Rightarrow>
                                     Inr (if self_normalize_reward self
                                          then map (\<lambda>x. (x - self_mean self) / self_std self) reward
                                          else reward)))))
              of
                Inl e \<Rightarrow> Inl e
              | Inr reward \<Rightarrow>
                  Inr (if return_output then RewardOutputs reward outs else Reward reward)))"

subsection \<open>Critic model: \<open>forward\<close>, lines 225-247\<close>

datatype critic_result =
    Values "real tensor2"
  | ValuesOutputs "real tensor2" outputs
  | OnlyOutputs outputs

text \<open>
  \<open>num_actions\<close> is kept as an optional integer, so that the test
  \<open>num_actions is None\<close> of line 245 is a branch of the model; negating \<open>None\<close>
  (line 247) would raise \<open>TypeError\<close>.
\<close>

definition critic_forward ::
  "'ids module \<Rightarrow> 'ids \<Rightarrow> 'm tensor2 option \<Rightarrow> int tensor2 option \<Rightarrow> bool
     \<Rightarrow> exn + critic_result" where
  "critic_forward self input_ids action_mask attention_mask return_output =
     (case base_model self input_ids attention_mask of
        Inl e \<Rightarrow> Inl e
      | Inr outs \<Rightarrow>
          let last_hidden_states = last_hidden_state outs;
              values = slice_cols_to (map_tensor (value_head self) last_hidden_states) (- 1)
          in (case action_mask of
                None \<Rightarrow> Inl AttributeError
              | Some am \<Rightarrow>
                  let num_actions = Some (int (ncols am));
                      values = (if self_normalize_reward self
                                then map_tensor (\<lambda>v. (v - self_mean self) / self_std self) values
                                else values)
                  in if return_output then
                       (case num_actions of
                          None \<Rightarrow> Inr (OnlyOutputs outs)
                        | Some n \<Rightarrow> Inr (ValuesOutputs (slice_cols_from values (- n)) outs))
                     else
                       (case num_actions of
                          None \<Rightarrow> Inl TypeError
                        | Some n \<Rightarrow> Inr (Values (slice_cols_from values (- n))))))"

section \<open>Construction: \<open>get_llm_for_sequence_regression\<close>\<close>

subsection \<open>Strings\<close>

text \<open>
  \<open>s.split(sep)\<close> for a non-empty separator: the pieces between the leftmost,
  non-overlapping occurrences of \<open>sep\<close>. The source only splits at \<open>"."\<close> and
  \<open>"For"\<close>.
\<close>

fun py_split :: "string \<Rightarrow> string \<Rightarrow> string list" where
  "py_split sep [] = [[]]"
| "py_split sep (c # cs) =
     (if sep \<noteq> [] \<and> prefix sep (c # cs) then [] # py_split sep (drop (length sep - 1) cs)
      else (case py_split sep cs of
              [] \<Rightarrow> [[c]]
            | p # ps \<Rightarrow> (c # p) # ps))"

subsection \<open>Configuration, classes and the loaded model\<close>

text \<open>
  The attributes of the configuration object that the source reads or writes. An
  attribute that may be absent (\<open>hasattr\<close>, \<open>in config.to_dict()\<close>) is an option;
  \<open>config_type\<close> is \<open>type(config)\<close>, the key of the architecture registry, and
  \<open>auto_map\<close> the dictionary of the checkpoint's bundled classes.
\<close>

record config =
  config_type :: string
  hidden_size :: int
  config_normalize_reward :: "bool option"
  config_attn_implementation :: "string option"
  auto_map :: "(string \<rightharpoonup> string) option"
  mean :: "real option"
  std :: "real option"
  output_router_logits :: "bool option"

text \<open>
  The class built by \<open>_get_reward_model\<close> or \<open>_get_critic_model\<close> from
  \<open>base_pretrained_model\<close> and \<open>base_llm_model\<close>, over the class objects \<open>'c\<close> of
  the model library.
\<close>

datatype 'c cls_class =
    RewardModel 'c 'c
  | CriticModel 'c 'c

text \<open>
  The arguments of \<open>LoraConfig\<close>, line 115: \<open>task_type\<close>, \<open>r\<close>, \<open>lora_alpha\<close>,
  \<open>target_modules\<close>, \<open>lora_dropout\<close> and \<open>bias\<close>.
\<close>

record lora_config =
  task_type :: string
  lora_r :: int
  lora_alpha_of :: int
  lora_target_modules :: "string list"
  lora_dropout :: int
  lora_bias :: string

text \<open>
  The object \<open>cls_class.from_pretrained\<close> returns, as far as the source touches it:
  its class, \<open>model.config\<close>, \<open>model._config\<close> and the adapter that wraps it.
\<close>

record 'c pretrained =
  model_class :: "'c cls_class"
  model_config :: config
  model_private_config :: "config option"
  peft_config :: "lora_config option"

type_synonym ds_config = "string \<rightharpoonup> (string \<rightharpoonup> int)"

text \<open>The keyword arguments of \<open>get_llm_for_sequence_regression\<close>, lines 24-32.\<close>

record 'kw options =
  bf16 :: bool
  lora_rank :: int
  lora_alpha :: int
  target_modules :: "string list option"
  normalize_reward :: bool
  use_flash_attention_2 :: bool
  ds_config :: "ds_config option"
  init_value_head :: bool
  kwargs :: 'kw

subsection \<open>Events and runs\<close>

text \<open>
  What a run does to the outside, in order: printed and logged lines, and the calls
  that load, wrap or initialise something. \<open>Normal m s\<close> is a draw of the value
  head's weight, \<open>value_head.weight.data.normal_(mean=m, std=s)\<close>, whoever makes it.
\<close>

datatype 'c event =
    Print string
  | LoggerInfo string
  | ConfigFromPretrained string
  | GetClassFromDynamicModule string string
  | HfDeepSpeedConfig
  | FromPretrained "'c cls_class" string
  | GetPeftModel lora_config
  | GatheredParameters
  | Normal real real

text \<open>A run: the events so far, and the exception raised or the value returned.\<close>

type_synonym ('c, 'a) run = "'c event list \<times> (exn + 'a)"

definition emit :: "'c event \<Rightarrow> ('c, unit) run" where
  "emit ev = ([ev], Inr ())"

definition call :: "'c event \<Rightarrow> exn + 'a \<Rightarrow> ('c, 'a) run" where
  "call ev res = ([ev], res)"

definition pure :: "exn + 'a \<Rightarrow> ('c, 'a) run" where
  "pure res = ([], res)"

definition bind_run :: "('c, 'a) run \<Rightarrow> ('a \<Rightarrow> ('c, 'b) run) \<Rightarrow> ('c, 'b) run" where
  "bind_run m f =
     (case m of
        (t, Inl e) \<Rightarrow> (t, Inl e)
      | (t, Inr x) \<Rightarrow> (case f x of (t', res) \<Rightarrow> (t @ t', res)))"

text \<open>\<open>try: m except Exception as e: h e\<close>\<close>

definition try_except :: "('c, 'a) run \<Rightarrow> (exn \<Rightarrow> ('c, 'a) run) \<Rightarrow> ('c, 'a) run" where
  "try_except m h =
     (case m of
        (t, Inl e) \<Rightarrow> (case h e of (t', res) \<Rightarrow> (t @ t', res))
      | (t, Inr x) \<Rightarrow> (t, Inr x))"

subsection \<open>The libraries the function calls\<close>

text \<open>
  Calls into the model library, the adapter library and the distributed runtime are
  parameters. Those whose failure the source handles or lets through are fallible;
  \<open>class_error\<close> is the exception, if any, that a \<open>class\<close> statement deriving from
  the given base raises. \<open>find_all_linear_names\<close> belongs to \<open>openrlhf/models/utils.py\<close>.

  \<open>cls_class.from_pretrained\<close> is a run of its own: the library builds the object
  with the class's \<open>__init__\<close>, calls \<open>_autoset_attn_implementation\<close> (which logs a
  line) and initialises the weights it does not find in the checkpoint, the value head's
  among them, with draws of its own choosing.
\<close>

record ('c, 'kw) env =
  AutoConfig_from_pretrained :: "string \<Rightarrow> exn + config"
  AutoModel_model_mapping :: "string \<Rightarrow> exn + 'c"
  class_base :: "'c \<Rightarrow> 'c"
  class_error :: "'c \<Rightarrow> exn option"
  get_class_from_dynamic_module :: "string \<Rightarrow> string \<Rightarrow> exn + 'c"
  cls_from_pretrained :: "'c cls_class \<Rightarrow> string \<Rightarrow> config \<Rightarrow> 'kw \<Rightarrow> ('c, 'c pretrained) run"
  find_all_linear_names :: "'c pretrained \<Rightarrow> string list"
  get_peft_model :: "'c pretrained \<Rightarrow> lora_config \<Rightarrow> exn + 'c pretrained"
  get_rank :: int

subsection \<open>Helpers of the language and of the tensor library\<close>

text \<open>\<open>xs[i]\<close> on a list\<close>

definition py_nth :: "'a list \<Rightarrow> int \<Rightarrow> exn + 'a" where
  "py_nth xs i =
     (case py_index (length xs) i of
        Inl e \<Rightarrow> Inl e
      | Inr j \<Rightarrow> Inr (xs ! j))"

text \<open>\<open>a / b\<close> on integers: true division.\<close>

definition py_truediv :: "int \<Rightarrow> int \<Rightarrow> exn + real" where
  "py_truediv a b = (if b = 0 then Inl ZeroDivisionError else Inr (real_of_int a / real_of_int b))"

text \<open>
  \<open>weight.data.normal_(mean=m, std=s)\<close>: the library refuses a negative standard
  deviation; the draw itself is the event.
\<close>

definition normal_init :: "real \<Rightarrow> real \<Rightarrow> ('c, unit) run" where
  "normal_init m s = (if s < 0 then pure (Inl RuntimeError) else emit (Normal m s))"

text \<open>
  Storing a Python float in a \<open>float32\<close> tensor, as \<open>t[0] = x\<close> does on the tensors
  that \<open>torch.zeros(1)\<close> and \<open>torch.ones(1)\<close> make with the library's default element
  type: a value beyond the largest \<open>float32\<close> number, \<open>2^128 - 2^104\<close>, is refused;
  any other is rounded to the nearest number with 24 significant bits, ties to the even
  one, on the exponent range \<open>-126 .. 127\<close> (below it the spacing stays \<open>2^-149\<close>).
\<close>

definition binary32_exponent :: "real \<Rightarrow> int" where
  "binary32_exponent x =
     (case List.find (\<lambda>e. 2 powi e \<le> \<bar>x\<bar>) (rev [- 126 .. 127]) of
        None \<Rightarrow> - 126
      | Some e \<Rightarrow> e)"

definition round_half_even :: "real \<Rightarrow> int" where
  "round_half_even y =
     (let f = \<lfloor>y\<rfloor>; d = y - of_int f
      in if d < 1 / 2 then f else if 1 / 2 < d then f + 1 else if even f then f else f + 1)"

definition float32_of :: "real \<Rightarrow> exn + real" where
  "float32_of x =
     (if 2 ^ 128 - 2 ^ 104 < \<bar>x\<bar> then Inl RuntimeError
      else let q = 2 powi (binary32_exponent x - 23)
           in Inr (of_int (round_half_even (x / q)) * q))"

subsection \<open>\<open>_get_reward_model\<close> and \<open>_get_critic_model\<close>: the class statement\<close>

definition get_reward_model :: "('c, 'kw) env \<Rightarrow> 'c \<Rightarrow> 'c \<Rightarrow> exn + 'c cls_class" where
  "get_reward_model env base_pretrained_model base_llm_model =
     (case class_error env base_pretrained_model of
        Some e \<Rightarrow> Inl e
      | None \<Rightarrow> Inr (RewardModel base_pretrained_model base_llm_model))"

definition get_critic_model :: "('c, 'kw) env \<Rightarrow> 'c \<Rightarrow> 'c \<Rightarrow> exn + 'c cls_class" where
  "get_critic_model env base_pretrained_model base_llm_model =
     (case class_error env base_pretrained_model of
        Some e \<Rightarrow> Inl e
      | None \<Rightarrow> Inr (CriticModel base_pretrained_model base_llm_model))"

subsection \<open>The body of \<open>try\<close>, lines 57-62\<close>

definition resolve_registry :: "('c, 'kw) env \<Rightarrow> config \<Rightarrow> string \<Rightarrow> ('c, 'c cls_class) run" where
  "resolve_registry env config model_type =
     bind_run (pure (AutoModel_model_mapping env (config_type config))) (\<lambda>base_class.
       let base_pretrained_class = class_base env base_class
       in if model_type = ''reward''
          then pure (get_reward_model env base_pretrained_class base_class)
          else pure (get_critic_model env base_pretrained_class base_class))"

subsection \<open>The body of \<open>except\<close>, lines 64-90\<close>

text \<open>
  Lines 65-79: the module file and the names of the base class and of the pretrained
  class, from \<open>config.auto_map\<close>.
\<close>

definition dynamic_class_names :: "config \<Rightarrow> exn + string \<times> string \<times> string" where
  "dynamic_class_names config =
     (case auto_map config of
        None \<Rightarrow> Inl AttributeError
      | Some amap \<Rightarrow>
          (case amap ''AutoModelForCausalLM'' of
             None \<Rightarrow> Inl KeyError
           | Some target \<Rightarrow>
               (case py_split ''.'' target of
                  [module_file, causal_model_name] \<Rightarrow>
                    if causal_model_name = ''QWenLMHeadModel''
                    then Inr (module_file, ''QWenModel'', ''QWenPreTrainedModel'')
                    else if causal_model_name = ''InternLMForCausalLM''
                    then Inr (module_file, ''InternLMModel'', ''InternLMPreTrainedModel'')
                    else
                      (case
                         (case amap ''AutoModel'' of
                            None \<Rightarrow>
                              (case py_nth (py_split ''For'' causal_model_name) 0 of
                                 Inl e \<Rightarrow> Inl e
                               | Inr stem \<Rightarrow> Inr (stem @ ''Model''))
                          | Some base_target \<Rightarrow> py_nth (py_split ''.'' base_target) 1)
                       of
                         Inl e \<Rightarrow> Inl e
                       | Inr auto_model_name \<Rightarrow>
                           (case py_nth (py_split ''For'' causal_model_name) 0 of
                              Inl e \<Rightarrow> Inl e
                            | Inr stem \<Rightarrow>
                                Inr (module_file, auto_model_name, stem @ ''PreTrainedModel'')))
                | _ \<Rightarrow> Inl ValueError)))"

definition resolve_dynamic ::
  "('c, 'kw) env \<Rightarrow> config \<Rightarrow> string \<Rightarrow> string \<Rightarrow> ('c, 'c cls_class) run" where
  "resolve_dynamic env config model_name_or_path model_type =
     bind_run (emit (Print ''Failed to load from AutoModel, construct from modelling file.'')) (\<lambda>_.
     bind_run (pure (dynamic_class_names config)) (\<lambda>(module_file, auto_model_name, pretrained_model_name).
     bind_run (emit (LoggerInfo (''BASE_MODEL_CLASS: '' @ auto_model_name
                 @ '', PRETRAINED_MODEL_CLASS: '' @ pretrained_model_name))) (\<lambda>_.
     bind_run (call (GetClassFromDynamicModule (module_file @ ''.'' @ pretrained_model_name) model_name_or_path)
                 (get_class_from_dynamic_module env (module_file @ ''.'' @ pretrained_model_name)
                    model_name_or_path)) (\<lambda>base_pretrained_class.
     bind_run (call (GetClassFromDynamicModule (module_file @ ''.'' @ auto_model_name) model_name_or_path)
                 (get_class_from_dynamic_module env (module_file @ ''.'' @ auto_model_name)
                    model_name_or_path)) (\<lambda>base_class.
       if model_type = ''reward''
       then pure (get_reward_model env base_pretrained_class base_class)
       else pure (get_critic_model env base_pretrained_class base_class))))))"

subsection \<open>After the class is known, lines 92-137\<close>

text \<open>Lines 94-97; the result says whether \<open>dschf\<close> is not \<open>None\<close>.\<close>

definition make_dschf :: "ds_config option \<Rightarrow> ('c, bool) run" where
  "make_dschf dsc =
     (case dsc of
        None \<Rightarrow> pure (Inr False)
      | Some d \<Rightarrow>
          (case d ''zero_optimization'' of
             None \<Rightarrow> pure (Inl KeyError)
           | Some z \<Rightarrow>
               (case z ''stage'' of
                  None \<Rightarrow> pure (Inl KeyError)
                | Some stage \<Rightarrow>
                    if stage = 3 then bind_run (emit HfDeepSpeedConfig) (\<lambda>_. pure (Inr True))
                    else pure (Inr False))))"

text \<open>Lines 128-135.\<close>

definition initialize_value_head :: "('c, 'kw) env \<Rightarrow> config \<Rightarrow> bool \<Rightarrow> bool \<Rightarrow> ('c, unit) run" where
  "initialize_value_head env config init dschf =
     (if init then
        if dschf then
          bind_run (emit (LoggerInfo ''initialize value_head for ZeRO-3 reward model training.'')) (\<lambda>_.
          bind_run (emit GatheredParameters) (\<lambda>_.
            if get_rank env = 0
            then bind_run (pure (py_truediv 1 (hidden_size config + 1))) (normal_init 0)
            else pure (Inr ())))
        else bind_run (pure (py_truediv 1 (hidden_size config + 1))) (normal_init 0)
      else pure (Inr ()))"

definition load_model ::
  "('c, 'kw) env \<Rightarrow> config \<Rightarrow> string \<Rightarrow> 'kw options \<Rightarrow> 'c cls_class \<Rightarrow> ('c, 'c pretrained) run" where
  "load_model env config model_name_or_path opts cls =
     bind_run (make_dschf (ds_config opts)) (\<lambda>dschf.
     bind_run (emit (FromPretrained cls model_name_or_path)) (\<lambda>_.
     bind_run (cls_from_pretrained env cls model_name_or_path config (kwargs opts)) (\<lambda>model.
     bind_run (if output_router_logits (model_config model) \<noteq> None
               then bind_run (emit (Print ''[Mixtral 8x7b] set output_router_logits as True'')) (\<lambda>_.
                      pure (Inr (model\<lparr>model_config := (model_config model)\<lparr>output_router_logits := Some True\<rparr>\<rparr>)))
               else pure (Inr model)) (\<lambda>model.
     let model = model\<lparr>model_private_config := Some config\<rparr>
     in
     bind_run (if 0 < lora_rank opts
               then let lora = \<lparr>task_type = ''SEQ_CLS'', lora_r = lora_rank opts,
                                 lora_alpha_of = lora_alpha opts,
                                 lora_target_modules =
                                   (case target_modules opts of
                                      None \<Rightarrow> find_all_linear_names env model
                                    | Some [] \<Rightarrow> find_all_linear_names env model
                                    | Some (t # ts) \<Rightarrow> t # ts),
                                 lora_dropout = 0, lora_bias = ''none''\<rparr>
                    in call (GetPeftModel lora) (get_peft_model env model lora)
               else pure (Inr model)) (\<lambda>model.
     bind_run (initialize_value_head env config (init_value_head opts) dschf) (\<lambda>_.
       pure (Inr model)))))))"

subsection \<open>\<open>get_llm_for_sequence_regression\<close>, lines 20-137\<close>

text \<open>Lines 53-54: the two attributes set on the loaded configuration.\<close>

definition configure :: "config \<Rightarrow> 'kw options \<Rightarrow> config" where
  "configure config opts =
     config\<lparr>config_normalize_reward := Some (normalize_reward opts),
            config_attn_implementation :=
              Some (if use_flash_attention_2 opts then ''flash_attention_2'' else ''eager'')\<rparr>"

definition get_llm_for_sequence_regression ::
  "('c, 'kw) env \<Rightarrow> string \<Rightarrow> string \<Rightarrow> 'kw options \<Rightarrow> ('c, 'c pretrained) run" where
  "get_llm_for_sequence_regression env model_name_or_path model_type opts =
     (if \<not> (model_type = ''critic'' \<or> model_type = ''reward'')
      then pure (Inl (AssertionError (''invalid model_type: '' @ model_type
                   @ '', should be critic or reward.'')))
      else
        bind_run (call (ConfigFromPretrained model_name_or_path)
                    (AutoConfig_from_pretrained env model_name_or_path)) (\<lambda>config.
          let config = configure config opts
          in
          bind_run (try_except (resolve_registry env config model_type)
                      (\<lambda>e. resolve_dynamic env config model_name_or_path model_type))
            (load_model env config model_name_or_path opts)))"

section \<open>\<open>LLMForSequenceRegression.__init__\<close>\<close>



section \<open>Notions used to state the properties\<close>

text \<open>A function applied to every reward, or to every value, of a result.\<close>

fun map_reward :: "(real \<Rightarrow> real) \<Rightarrow> reward_result \<Rightarrow> reward_result" where
  "map_reward f (Reward rs) = Reward (map f rs)"
| "map_reward f (RewardOutputs rs outs) = RewardOutputs (map f rs) outs"

fun map_values :: "(real \<Rightarrow> real) \<Rightarrow> critic_result \<Rightarrow> critic_result" where
  "map_values f (Values v) = Values (map_tensor f v)"
| "map_values f (ValuesOutputs v outs) = ValuesOutputs (map_tensor f v) outs"
| "map_values f (OnlyOutputs outs) = OnlyOutputs outs"

text \<open>Whether the DeepSpeed configuration asks for stage 3, the test of line 94.\<close>

definition zero_stage3 :: "ds_config option \<Rightarrow> bool" where
  "zero_stage3 dsc =
     (case dsc of
        None \<Rightarrow> False
      | Some d \<Rightarrow>
          (case d ''zero_optimization'' of
             None \<Rightarrow> False
           | Some z \<Rightarrow> z ''stage'' = Some 3))"

subsection \<open>A small concrete setting\<close>

text \<open>
  Two sequences of three tokens with hidden size 2; the value head weight \<open>[1, 2]\<close>
  gives the per-token values \<open>1, 2, 3\<close> and \<open>2, 4, 9\<close>. The first mask row ends in a
  padding token, the second starts with one.
\<close>

definition ex_outputs :: outputs where
  "ex_outputs =
     \<lparr>last_hidden_state = \<lparr>ncols = 3, rows = [[[1, 0], [0, 1], [1, 1]], [[2, 0], [0, 2], [3, 3]]]\<rparr>\<rparr>"

definition ex_module :: "unit module" where
  "ex_module =
     \<lparr>base_model = (\<lambda>_ _. Inr ex_outputs), value_head_weight = [1, 2],
      self_normalize_reward = True, self_mean = 1, self_std = 2, training = False\<rparr>"

definition ex_mask :: "int tensor2" where
  "ex_mask = \<lparr>ncols = 3, rows = [[1, 1, 0], [0, 1, 1]]\<rparr>"

text \<open>
  A checkpoint whose configuration type the registry does not know and whose
  \<open>auto_map\<close> names the bundled QWen classes; class objects are their names. Loading
  logs the line of \<open>_autoset_attn_implementation\<close> and draws the value head's weight
  with the library's standard deviation, here 0.02.
\<close>

definition ex_config :: config where
  "ex_config =
     \<lparr>config_type = ''QWenConfig'', hidden_size = 3, config_normalize_reward = None,
      config_attn_implementation = None,
      auto_map = Some [''AutoModelForCausalLM'' \<mapsto> ''modeling_qwen.QWenLMHeadModel''],
      mean = Some 5, std = Some 4, output_router_logits = None\<rparr>"

definition ex_env :: "(string, unit) env" where
  "ex_env =
     \<lparr>AutoConfig_from_pretrained = (\<lambda>_. Inr ex_config),
      AutoModel_model_mapping = (\<lambda>t. if t = ''LlamaConfig'' then Inr ''LlamaModel'' else Inl KeyError),
      class_base = (\<lambda>_. ''LlamaPreTrainedModel''),
      class_error = (\<lambda>_. None),
      get_class_from_dynamic_module = (\<lambda>name _. Inr name),
      cls_from_pretrained = (\<lambda>cls _ cfg _.
        ([LoggerInfo ''Monkey patch for Flash Attention, see https://github.com/huggingface/transformers/issues/28052'',
          Normal 0 (1 / 50)],
         Inr \<lparr>model_class = cls, model_config = cfg, model_private_config = None,
              peft_config = None\<rparr>)),
      find_all_linear_names = (\<lambda>_. [''q_proj'']),
      get_peft_model = (\<lambda>m lora. Inr (m\<lparr>peft_config := Some lora\<rparr>)),
      get_rank = 0\<rparr>"

definition ex_options :: "unit options" where
  "ex_options =
     \<lparr>bf16 = True, lora_rank = 0, lora_alpha = 16, target_modules = None,
      normalize_reward = False, use_flash_attention_2 = False, ds_config = None,
      init_value_head = True, kwargs = ()\<rparr>"

section \<open>Forward passes\<close>

subsection \<open>Auxiliary facts\<close>

lemma value_head_update [simp]:
  "value_head (self\<lparr>self_normalize_reward := n\<rparr>) = value_head self"
  "value_head (self\<lparr>self_mean := m\<rparr>) = value_head self"
  "value_head (self\<lparr>self_std := s\<rparr>) = value_head self"
  "value_head (self\<lparr>training := t\<rparr>) = value_head self"
  "value_head (self\<lparr>base_model := bm\<rparr>) = value_head self"
  by (simp_all add: value_head_def fun_eq_iff)

lemma fold_max_hd:
  fixes ys :: "int list"
  assumes ne: "ys \<noteq> []"
  shows "fold max ys (hd ys) = Max (set ys)"
proof -
  have "Max (set (hd ys # ys)) = fold max ys (hd ys)" by (rule Max.set_eq_fold)
  moreover have "set (hd ys # ys) = set ys" using ne by (cases ys) auto
  ultimately show ?thesis by simp
qed

text \<open>On a row of zeros and ones that has a one, \<open>argmax\<close> finds the first one.\<close>

lemma argmax_row_binary:
  fixes ys :: "int list"
  assumes bin: "set ys \<subseteq> {0, 1}" and one: "1 \<in> set ys"
  shows "argmax_row ys < length ys \<and> ys ! argmax_row ys = 1
         \<and> (\<forall>j < argmax_row ys. ys ! j \<noteq> 1)"
proof -
  have ne: "ys \<noteq> []" using one by auto
  have mx: "Max (set ys) = 1"
  proof (rule Max_eqI)
    show "finite (set ys)" by simp
    show "\<And>y. y \<in> set ys \<Longrightarrow> y \<le> 1" using bin by auto
    show "1 \<in> set ys" by (rule one)
  qed
  let ?a = "length (takeWhile (\<lambda>x. x < 1) ys)"
  have a_def: "argmax_row ys = ?a"
    by (simp add: argmax_row_def fold_max_hd [OF ne] mx)
  have lt: "?a < length ys"
  proof (rule ccontr)
    assume "\<not> ?a < length ys"
    then have "?a = length ys" using length_takeWhile_le [of "\<lambda>x. x < 1" ys] by simp
    then have "takeWhile (\<lambda>x. x < 1) ys = ys"
      by (metis takeWhile_eq_take take_all order_refl)
    then have "\<forall>x \<in> set ys. x < 1" by (metis set_takeWhileD)
    with one show False by auto
  qed
  have "\<not> ys ! ?a < 1" using lt by (rule nth_length_takeWhile)
  moreover have "ys ! ?a \<in> set ys" using lt by simp
  ultimately have at: "ys ! ?a = 1" using bin by auto
  have before: "\<forall>j < ?a. ys ! j \<noteq> 1"
  proof (intro allI impI)
    fix j assume j: "j < ?a"
    have "takeWhile (\<lambda>x. x < 1) ys ! j \<in> set (takeWhile (\<lambda>x. x < 1) ys)"
      using j by (rule nth_mem)
    then have "takeWhile (\<lambda>x. x < 1) ys ! j < 1" by (rule set_takeWhileD [THEN conjunct2])
    then have "ys ! j < 1" using j by (simp add: takeWhile_nth)
    then show "ys ! j \<noteq> 1" by simp
  qed
  show ?thesis using lt at before by (simp add: a_def)
qed

text \<open>Counted from the end of the reversed row, that is the last one of the row.\<close>

lemma last_one_index:
  fixes xs :: "int list"
  assumes bin: "set xs \<subseteq> {0, 1}" and one: "1 \<in> set xs"
  defines "i \<equiv> length xs - 1 - argmax_row (rev xs)"
  shows "i < length xs \<and> xs ! i = 1 \<and> (\<forall>j. i < j \<and> j < length xs \<longrightarrow> xs ! j \<noteq> 1)
     \<and> int (length xs) - 1 - int (argmax_row (rev xs)) = int i"
proof -
  let ?a = "argmax_row (rev xs)"
  have r: "?a < length xs \<and> rev xs ! ?a = 1 \<and> (\<forall>j < ?a. rev xs ! j \<noteq> 1)"
    using argmax_row_binary [of "rev xs"] bin one by simp
  then have a: "?a < length xs" by simp
  have i_lt: "i < length xs" using a by (simp add: i_def)
  have "rev xs ! ?a = xs ! i" using a by (simp add: rev_nth i_def)
  then have at: "xs ! i = 1" using r by simp
  have after: "\<forall>j. i < j \<and> j < length xs \<longrightarrow> xs ! j \<noteq> 1"
  proof (intro allI impI)
    fix j assume j: "i < j \<and> j < length xs"
    let ?k = "length xs - 1 - j"
    have k: "?k < ?a" using j a by (simp add: i_def) arith
    have "?k < length xs" using j by arith
    then have "rev xs ! ?k = xs ! (length xs - Suc ?k)" by (rule rev_nth)
    moreover have "length xs - Suc ?k = j" using j by arith
    ultimately have "rev xs ! ?k = xs ! j" by simp
    then show "xs ! j \<noteq> 1" using r k by metis
  qed
  have "int (length xs) - 1 - int ?a = int i" using a by (simp add: i_def)
  then show ?thesis using i_lt at after by simp
qed

lemma map_tensor_slice_cols_from:
  "slice_cols_from (map_tensor f t) k = map_tensor f (slice_cols_from t k)"
  by (simp add: slice_cols_from_def map_tensor_def Let_def drop_map)

subsection \<open>Reward model\<close>

text \<open>
  Claim C2. In training mode the reward of every row is the value head's projection of
  the hidden state at the last position, index \<open>sequence length - 1\<close>, whatever the
  attention mask is (absent, or any tensor): the mask only reaches the backbone. The
  sequence has at least one position; on an empty one \<open>values[:, -1]\<close> raises.
\<close>

theorem reward_forward_training_last_position:
  assumes tr: "training self"
    and bm: "base_model self input_ids attention_mask = Inr outs"
    and wf: "wf_tensor (last_hidden_state outs)"
    and pos: "0 < ncols (last_hidden_state outs)"
  shows "reward_forward self input_ids attention_mask return_output =
     Inr (let reward = map (\<lambda>row. value_head self (row ! (ncols (last_hidden_state outs) - 1)))
                         (rows (last_hidden_state outs))
          in if return_output then RewardOutputs reward outs else Reward reward)"
  using assms
  by (simp add: reward_forward_def select_col_def py_index_def map_tensor_def Let_def
      nat_diff_distrib wf_tensor_def list_all_iff)

theorem reward_forward_training_last_position_witness:
  "reward_forward (ex_module\<lparr>training := True\<rparr>) () (Some ex_mask) False = Inr (Reward [3, 9])
   \<and> reward_forward (ex_module\<lparr>training := True\<rparr>) () None False = Inr (Reward [3, 9])"
proof -
  have tr: "training (ex_module\<lparr>training := True\<rparr>)" by simp
  have bm: "base_model (ex_module\<lparr>training := True\<rparr>) () am = Inr ex_outputs" for am
    by (simp add: ex_module_def)
  have wf: "wf_tensor (last_hidden_state ex_outputs)"
    by (simp add: ex_outputs_def wf_tensor_def)
  have pos: "0 < ncols (last_hidden_state ex_outputs)"
    by (simp add: ex_outputs_def)
  show ?thesis
    using reward_forward_training_last_position [OF tr bm wf pos, of "Some ex_mask" False]
      reward_forward_training_last_position [OF tr bm wf pos, of None False]
    by (simp add: ex_outputs_def ex_module_def value_head_def)
qed

text \<open>
  Claim C3. In evaluation mode, for a mask of zeros and ones with at least one position
  whose rows each hold a one, wherever the zeros are, the reward of a row is the value
  head's projection at the highest index whose mask entry is 1; with normalisation enabled
  it is that value standardised. The mask has no more rows and no more columns than the
  hidden states.
\<close>

theorem reward_forward_eval_last_real_token:
  assumes ev: "\<not> training self"
    and bm: "base_model self input_ids (Some am) = Inr outs"
    and wf_h: "wf_tensor (last_hidden_state outs)"
    and wf_m: "wf_tensor am"
    and nrows: "length (rows am) \<le> length (rows (last_hidden_state outs))"
    and ncol: "ncols am \<le> ncols (last_hidden_state outs)"
    and Lpos: "0 < ncols am"
    and bin: "\<forall>row \<in> set (rows am). set row \<subseteq> {0, 1} \<and> 1 \<in> set row"
  shows "\<exists>reward.
      reward_forward self input_ids (Some am) return_output
        = Inr (if return_output then RewardOutputs reward outs else Reward reward)
    \<and> length reward = length (rows am)
    \<and> (\<forall>b < length (rows am). \<exists>i < ncols am.
          rows am ! b ! i = 1
        \<and> (\<forall>j. i < j \<and> j < ncols am \<longrightarrow> rows am ! b ! j \<noteq> 1)
        \<and> reward ! b =
            (let x = value_head self (rows (last_hidden_state outs) ! b ! i)
             in if self_normalize_reward self then (x - self_mean self) / self_std self else x))"
proof -
  let ?hs = "last_hidden_state outs"
  let ?vals = "map_tensor (value_head self) ?hs"
  let ?L = "ncols am"
  let ?norm = "\<lambda>x. if self_normalize_reward self then (x - self_mean self) / self_std self else x"
  let ?idx = "map (\<lambda>a. int ?L - 1 - int a) (map argmax_row (map rev (rows am)))"
  let ?raw = "map2 (\<lambda>r i. r ! nat i) (rows ?vals) ?idx"
  let ?reward = "map ?norm ?raw"
  have row_len: "\<And>r. r \<in> set (rows am) \<Longrightarrow> length r = ?L"
    using wf_m by (simp add: wf_tensor_def list_all_iff)
  have hrow_len: "\<And>r. r \<in> set (rows ?hs) \<Longrightarrow> length r = ncols ?hs"
    using wf_h by (simp add: wf_tensor_def list_all_iff)
  have key: "\<And>r. r \<in> set (rows am) \<Longrightarrow>
      (let i = ?L - 1 - argmax_row (rev r) in
       i < ?L \<and> r ! i = 1 \<and> (\<forall>j. i < j \<and> j < ?L \<longrightarrow> r ! j \<noteq> 1)
       \<and> int ?L - 1 - int (argmax_row (rev r)) = int i)"
    using last_one_index bin row_len by (metis (no_types, lifting))
  have idx_ok: "\<not> list_ex (\<lambda>i. i < 0 \<or> int (ncols ?vals) \<le> i) ?idx"
  proof -
    have rng: "0 \<le> int ?L - 1 - int (argmax_row (rev r))
        \<and> int ?L - 1 - int (argmax_row (rev r)) < int (ncols ?hs)"
      if "r \<in> set (rows am)" for r
    proof -
      let ?i = "?L - 1 - argmax_row (rev r)"
      have "?i < ?L" and "int ?L - 1 - int (argmax_row (rev r)) = int ?i"
        using key [OF that] by (simp_all add: Let_def)
      then show ?thesis using ncol by linarith
    qed
    have nc: "ncols ?vals = ncols ?hs" by (simp add: map_tensor_def)
    have "\<not> (i < 0 \<or> int (ncols ?vals) \<le> i)" if "i \<in> set ?idx" for i
    proof -
      from that obtain r where r: "r \<in> set (rows am)"
        and i: "i = int ?L - 1 - int (argmax_row (rev r))" by auto
      show ?thesis using rng [OF r] nc unfolding i by linarith
    qed
    then show ?thesis unfolding list_ex_iff by blast
  qed
  have len_ok: "\<not> length (rows ?vals) < length ?idx"
    using nrows by (simp add: map_tensor_def)
  have gather: "gather_col ?vals ?idx = Inr ?raw"
    using idx_ok len_ok unfolding gather_col_def by simp
  have fwd: "reward_forward self input_ids (Some am) return_output
      = Inr (if return_output then RewardOutputs ?reward outs else Reward ?reward)"
    using ev bm Lpos gather
    by (simp add: reward_forward_def argmax_dim1_def fliplr_def Let_def)
  have len: "length ?reward = length (rows am)"
    using nrows by (simp add: map_tensor_def)
  have each: "\<forall>b < length (rows am). \<exists>i < ncols am.
          rows am ! b ! i = 1
        \<and> (\<forall>j. i < j \<and> j < ncols am \<longrightarrow> rows am ! b ! j \<noteq> 1)
        \<and> ?reward ! b = ?norm (value_head self (rows ?hs ! b ! i))"
  proof (intro allI impI)
    fix b assume b: "b < length (rows am)"
    let ?r = "rows am ! b"
    let ?i = "?L - 1 - argmax_row (rev ?r)"
    have rin: "?r \<in> set (rows am)" using b by simp
    have k: "?i < ?L \<and> ?r ! ?i = 1 \<and> (\<forall>j. ?i < j \<and> j < ?L \<longrightarrow> ?r ! j \<noteq> 1)
       \<and> int ?L - 1 - int (argmax_row (rev ?r)) = int ?i"
      using key [OF rin] by (simp add: Let_def)
    have bh: "b < length (rows ?hs)" using b nrows by simp
    then have "rows ?hs ! b \<in> set (rows ?hs)" by simp
    then have hl: "length (rows ?hs ! b) = ncols ?hs" by (rule hrow_len)
    have "?reward ! b
        = ?norm (map (value_head self) (rows ?hs ! b) ! nat (int ?L - 1 - int (argmax_row (rev ?r))))"
      using b bh by (simp add: map_tensor_def)
    also have "\<dots> = ?norm (map (value_head self) (rows ?hs ! b) ! ?i)"
    proof -
      have "int ?L - 1 - int (argmax_row (rev ?r)) = int ?i" using k by blast
      then have "nat (int ?L - 1 - int (argmax_row (rev ?r))) = ?i" by (simp only: nat_int)
      then show ?thesis by (simp only:)
    qed
    also have "\<dots> = ?norm (value_head self (rows ?hs ! b ! ?i))"
      using k hl ncol by simp
    finally have "?reward ! b = ?norm (value_head self (rows ?hs ! b ! ?i))" .
    with k show "\<exists>i < ncols am. ?r ! i = 1
        \<and> (\<forall>j. i < j \<and> j < ncols am \<longrightarrow> ?r ! j \<noteq> 1)
        \<and> ?reward ! b = ?norm (value_head self (rows ?hs ! b ! i))"
      by blast
  qed
  show ?thesis
    apply (rule exI [of _ ?reward])
    using fwd len each by (simp add: Let_def)
qed

theorem reward_forward_eval_last_real_token_witness:
  "reward_forward ex_module () (Some ex_mask) False = Inr (Reward [1 / 2, 4])"
proof -
  have ev: "\<not> training ex_module" by (simp add: ex_module_def)
  have bm: "base_model ex_module () (Some ex_mask) = Inr ex_outputs" by (simp add: ex_module_def)
  have wf_h: "wf_tensor (last_hidden_state ex_outputs)" by (simp add: ex_outputs_def wf_tensor_def)
  have wf_m: "wf_tensor ex_mask" by (simp add: ex_mask_def wf_tensor_def)
  have nrows: "length (rows ex_mask) \<le> length (rows (last_hidden_state ex_outputs))"
    by (simp add: ex_mask_def ex_outputs_def)
  have ncol: "ncols ex_mask \<le> ncols (last_hidden_state ex_outputs)"
    by (simp add: ex_mask_def ex_outputs_def)
  have Lpos: "0 < ncols ex_mask" by (simp add: ex_mask_def)
  have bin: "\<forall>row \<in> set (rows ex_mask). set row \<subseteq> {0, 1} \<and> 1 \<in> set row"
    by (simp add: ex_mask_def)
  obtain reward where fwd: "reward_forward ex_module () (Some ex_mask) False = Inr (Reward reward)"
    and len: "length reward = length (rows ex_mask)"
    and each: "\<forall>b < length (rows ex_mask). \<exists>i < ncols ex_mask.
          rows ex_mask ! b ! i = 1
        \<and> (\<forall>j. i < j \<and> j < ncols ex_mask \<longrightarrow> rows ex_mask ! b ! j \<noteq> 1)
        \<and> reward ! b =
            (let x = value_head ex_module (rows (last_hidden_state ex_outputs) ! b ! i)
             in if self_normalize_reward ex_module
                then (x - self_mean ex_module) / self_std ex_module else x)"
    using reward_forward_eval_last_real_token
            [OF ev bm wf_h wf_m nrows ncol Lpos bin, of False]
    by auto
  have l2: "length reward = 2" using len by (simp add: ex_mask_def)
  have "\<exists>i < 3. rows ex_mask ! 0 ! i = 1 \<and> (\<forall>j. i < j \<and> j < 3 \<longrightarrow> rows ex_mask ! 0 ! j \<noteq> 1)
        \<and> reward ! 0 = (value_head ex_module (rows (last_hidden_state ex_outputs) ! 0 ! i) - 1) / 2"
    using each [rule_format, of 0] by (simp add: ex_mask_def ex_module_def)
  then obtain i where i: "i < 3" "rows ex_mask ! 0 ! i = 1"
      "\<forall>j. i < j \<and> j < 3 \<longrightarrow> rows ex_mask ! 0 ! j \<noteq> 1"
      "reward ! 0 = (value_head ex_module (rows (last_hidden_state ex_outputs) ! 0 ! i) - 1) / 2"
    by blast
  have "i = 1"
  proof -
    from i(1) have "i = 0 \<or> i = 1 \<or> i = 2" by arith
    then show ?thesis using i(2) i(3) [rule_format, of 1] by (auto simp add: ex_mask_def)
  qed
  then have r0: "reward ! 0 = 1 / 2"
    using i(4) by (simp add: ex_outputs_def ex_module_def value_head_def)
  have "\<exists>i < 3. rows ex_mask ! 1 ! i = 1 \<and> (\<forall>j. i < j \<and> j < 3 \<longrightarrow> rows ex_mask ! 1 ! j \<noteq> 1)
        \<and> reward ! 1 = (value_head ex_module (rows (last_hidden_state ex_outputs) ! 1 ! i) - 1) / 2"
    using each [rule_format, of 1] by (simp add: ex_mask_def ex_module_def)
  then obtain k where k: "k < 3" "rows ex_mask ! 1 ! k = 1"
      "\<forall>j. k < j \<and> j < 3 \<longrightarrow> rows ex_mask ! 1 ! j \<noteq> 1"
      "reward ! 1 = (value_head ex_module (rows (last_hidden_state ex_outputs) ! 1 ! k) - 1) / 2"
    by blast
  have "k = 2"
  proof -
    from k(1) have "k = 0 \<or> k = 1 \<or> k = 2" by arith
    then show ?thesis using k(2) k(3) [rule_format, of 2] by (auto simp add: ex_mask_def)
  qed
  then have r1: "reward ! 1 = 4"
    using k(4) by (simp add: ex_outputs_def ex_module_def value_head_def)
  have "reward = [reward ! 0, reward ! 1]"
    using l2 by (metis One_nat_def Suc_1 length_0_conv length_Suc_conv nth_Cons_0 nth_Cons_Suc)
  then have "reward = [1 / 2, 4]" using r0 r1 by simp
  then show ?thesis using fwd by simp
qed

text \<open>
  Claim C4. With \<open>normalize_reward\<close> enabled, the evaluation-mode result is the
  un-normalised result with \<open>x \<mapsto> (x - mean) / std\<close> applied to every reward; in
  training mode the result does not depend on the flag, the mean or the standard deviation,
  so nothing is normalised; and with mean 0 and standard deviation 1 the evaluation-mode
  result is the un-normalised one.
\<close>

theorem reward_forward_normalization:
  "(\<not> training self \<and> self_normalize_reward self \<longrightarrow>
      reward_forward self input_ids attention_mask return_output
        = map_sum id (map_reward (\<lambda>x. (x - self_mean self) / self_std self))
            (reward_forward (self\<lparr>self_normalize_reward := False\<rparr>)
               input_ids attention_mask return_output))
   \<and> (training self \<longrightarrow>
      (\<forall>flag m s.
         reward_forward (self\<lparr>self_normalize_reward := flag, self_mean := m, self_std := s\<rparr>)
           input_ids attention_mask return_output
         = reward_forward self input_ids attention_mask return_output))
   \<and> (\<not> training self \<and> self_mean self = 0 \<and> self_std self = 1 \<longrightarrow>
      reward_forward self input_ids attention_mask return_output
        = reward_forward (self\<lparr>self_normalize_reward := False\<rparr>)
            input_ids attention_mask return_output)"
proof (intro conjI impI allI)
  assume "\<not> training self \<and> self_normalize_reward self"
  then show "reward_forward self input_ids attention_mask return_output
        = map_sum id (map_reward (\<lambda>x. (x - self_mean self) / self_std self))
            (reward_forward (self\<lparr>self_normalize_reward := False\<rparr>)
               input_ids attention_mask return_output)"
    by (simp add: reward_forward_def Let_def split: sum.splits option.splits)
next
  fix flag m s
  assume "training self"
  then show "reward_forward (self\<lparr>self_normalize_reward := flag, self_mean := m, self_std := s\<rparr>)
           input_ids attention_mask return_output
         = reward_forward self input_ids attention_mask return_output"
    by (simp add: reward_forward_def Let_def split: sum.splits option.splits)
next
  assume "\<not> training self \<and> self_mean self = 0 \<and> self_std self = 1"
  then show "reward_forward self input_ids attention_mask return_output
        = reward_forward (self\<lparr>self_normalize_reward := False\<rparr>)
            input_ids attention_mask return_output"
    by (simp add: reward_forward_def Let_def split: sum.splits option.splits)
qed

theorem reward_forward_normalization_witness:
  "reward_forward ex_module () (Some ex_mask) False
     = map_sum id (map_reward (\<lambda>x. (x - 1) / 2)) (Inr (Reward [2, 9]))
   \<and> reward_forward (ex_module\<lparr>training := True\<rparr>) () (Some ex_mask) False
     = reward_forward (ex_module\<lparr>training := True, self_normalize_reward := False,
         self_mean := 0, self_std := 1\<rparr>) () (Some ex_mask) False
   \<and> reward_forward (ex_module\<lparr>self_mean := 0, self_std := 1\<rparr>) () (Some ex_mask) False
     = Inr (Reward [2, 9])"
proof -
  have raw: "reward_forward (ex_module\<lparr>self_normalize_reward := False\<rparr>) () (Some ex_mask) False
      = Inr (Reward [2, 9])"
    by (simp add: reward_forward_def ex_module_def ex_outputs_def ex_mask_def value_head_def
        map_tensor_def argmax_dim1_def argmax_row_def fliplr_def gather_col_def)
  have raw': "reward_forward (ex_module\<lparr>self_mean := 0, self_std := 1, self_normalize_reward := False\<rparr>)
        () (Some ex_mask) False = Inr (Reward [2, 9])"
    by (simp add: reward_forward_def ex_module_def ex_outputs_def ex_mask_def value_head_def
        map_tensor_def argmax_dim1_def argmax_row_def fliplr_def gather_col_def)
  have a: "\<not> training ex_module \<and> self_normalize_reward ex_module" by (simp add: ex_module_def)
  have b: "training (ex_module\<lparr>training := True\<rparr>)" by simp
  have c: "\<not> training (ex_module\<lparr>self_mean := 0, self_std := 1\<rparr>)
      \<and> self_mean (ex_module\<lparr>self_mean := 0, self_std := 1\<rparr>) = 0
      \<and> self_std (ex_module\<lparr>self_mean := 0, self_std := 1\<rparr>) = 1"
    by (simp add: ex_module_def)
  note T1 = reward_forward_normalization [of ex_module "()" "Some ex_mask" False]
  note T2 = reward_forward_normalization [of "ex_module\<lparr>training := True\<rparr>" "()" "Some ex_mask" False]
  note T3 = reward_forward_normalization
              [of "ex_module\<lparr>self_mean := 0, self_std := 1\<rparr>" "()" "Some ex_mask" False]
  have 1: "reward_forward ex_module () (Some ex_mask) False
     = map_sum id (map_reward (\<lambda>x. (x - 1) / 2)) (Inr (Reward [2, 9]))"
    using T1 [THEN conjunct1, rule_format, OF a] raw by (simp add: ex_module_def)
  have 2: "reward_forward (ex_module\<lparr>training := True\<rparr>) () (Some ex_mask) False
     = reward_forward (ex_module\<lparr>training := True, self_normalize_reward := False,
         self_mean := 0, self_std := 1\<rparr>) () (Some ex_mask) False"
  proof -
    have "\<forall>flag m s.
         reward_forward (ex_module\<lparr>training := True, self_normalize_reward := flag,
           self_mean := m, self_std := s\<rparr>) () (Some ex_mask) False
         = reward_forward (ex_module\<lparr>training := True\<rparr>) () (Some ex_mask) False"
      using T2 b by blast
    then show ?thesis by simp
  qed
  have 3: "reward_forward (ex_module\<lparr>self_mean := 0, self_std := 1\<rparr>) () (Some ex_mask) False
     = Inr (Reward [2, 9])"
    using T3 [THEN conjunct2, THEN conjunct2, rule_format, OF c] raw' by simp
  show ?thesis using 1 2 3 by blast
qed

subsection \<open>Critic model\<close>

text \<open>
  Claim C5. The critic's forward pass never reads the training flag: a module in the other
  mode whose backbone returns the same outputs on these inputs gives the same result. With
  \<open>normalize_reward\<close> enabled that result, in either mode, is the un-normalised one with
  \<open>v \<mapsto> (v - mean) / std\<close> applied to every value.
\<close>

theorem critic_forward_normalization_unconditional:
  "(bm input_ids attention_mask = base_model self input_ids attention_mask \<longrightarrow>
      critic_forward (self\<lparr>training := mode, base_model := bm\<rparr>)
          input_ids action_mask attention_mask return_output
        = critic_forward self input_ids action_mask attention_mask return_output)
   \<and> (self_normalize_reward self \<longrightarrow>
      critic_forward self input_ids action_mask attention_mask return_output
        = map_sum id (map_values (\<lambda>v. (v - self_mean self) / self_std self))
            (critic_forward (self\<lparr>self_normalize_reward := False\<rparr>)
               input_ids action_mask attention_mask return_output))"
proof (intro conjI impI)
  assume "bm input_ids attention_mask = base_model self input_ids attention_mask"
  then show "critic_forward (self\<lparr>training := mode, base_model := bm\<rparr>)
          input_ids action_mask attention_mask return_output
        = critic_forward self input_ids action_mask attention_mask return_output"
    by (simp add: critic_forward_def Let_def split: sum.splits option.splits)
next
  assume "self_normalize_reward self"
  then show "critic_forward self input_ids action_mask attention_mask return_output
        = map_sum id (map_values (\<lambda>v. (v - self_mean self) / self_std self))
            (critic_forward (self\<lparr>self_normalize_reward := False\<rparr>)
               input_ids action_mask attention_mask return_output)"
    by (simp add: critic_forward_def Let_def map_tensor_slice_cols_from
        split: sum.splits option.splits)
qed

theorem critic_forward_normalization_unconditional_witness:
  "critic_forward (ex_module\<lparr>training := True\<rparr>) () (Some ex_mask) None False
     = Inr (Values \<lparr>ncols = 2, rows = [[0, 1 / 2], [1 / 2, 3 / 2]]\<rparr>)
   \<and> critic_forward ex_module () (Some ex_mask) None False
     = Inr (Values \<lparr>ncols = 2, rows = [[0, 1 / 2], [1 / 2, 3 / 2]]\<rparr>)"
proof -
  have raw: "critic_forward (ex_module\<lparr>self_normalize_reward := False\<rparr>) () (Some ex_mask) None False
      = Inr (Values \<lparr>ncols = 2, rows = [[1, 2], [2, 4]]\<rparr>)"
    by (simp add: critic_forward_def ex_module_def ex_outputs_def ex_mask_def value_head_def
        map_tensor_def slice_cols_to_def slice_cols_from_def py_slice_bound_def)
  have same: "base_model ex_module () None = base_model ex_module () None" by simp
  have flag: "self_normalize_reward ex_module" by (simp add: ex_module_def)
  note T = critic_forward_normalization_unconditional
             [of "base_model ex_module" "()" None ex_module True "Some ex_mask" False]
  have ev: "critic_forward ex_module () (Some ex_mask) None False
     = Inr (Values \<lparr>ncols = 2, rows = [[0, 1 / 2], [1 / 2, 3 / 2]]\<rparr>)"
    using T [THEN conjunct2, rule_format, OF flag] raw
    by (simp add: ex_module_def map_tensor_def)
  have "critic_forward (ex_module\<lparr>training := True, base_model := base_model ex_module\<rparr>)
          () (Some ex_mask) None False
        = critic_forward ex_module () (Some ex_mask) None False"
    using T [THEN conjunct1, rule_format, OF same] .
  then have "critic_forward (ex_module\<lparr>training := True\<rparr>) () (Some ex_mask) None False
        = critic_forward ex_module () (Some ex_mask) None False"
    by (simp add: ex_module_def)
  then show ?thesis using ev by simp
qed

text \<open>
  For an action mask of \<open>n\<close> columns with \<open>1 \<le> n \<le> L - 1\<close>, the result has shape
  (batch, \<open>n\<close>) and holds, for every row, the values at the positions \<open>L - 1 - n\<close> to
  \<open>L - 2\<close> (standardised when normalisation is enabled).
\<close>

lemma critic_forward_last_actions:
  assumes bm: "base_model self input_ids attention_mask = Inr outs"
    and wf: "wf_tensor (last_hidden_state outs)"
    and n1: "1 \<le> ncols action_mask"
    and nL: "ncols action_mask + 1 \<le> ncols (last_hidden_state outs)"
  shows "\<exists>v. critic_forward self input_ids (Some action_mask) attention_mask return_output
               = Inr (if return_output then ValuesOutputs v outs else Values v)
     \<and> ncols v = ncols action_mask
     \<and> length (rows v) = length (rows (last_hidden_state outs))
     \<and> (\<forall>b < length (rows v). length (rows v ! b) = ncols action_mask
          \<and> (\<forall>j < ncols action_mask. rows v ! b ! j =
               (let x = value_head self
                          (rows (last_hidden_state outs) ! b
                             ! (ncols (last_hidden_state outs) - 1 - ncols action_mask + j))
                in if self_normalize_reward self then (x - self_mean self) / self_std self else x)))"
proof -
  let ?hs = "last_hidden_state outs"
  let ?L = "ncols ?hs"
  let ?n = "ncols action_mask"
  let ?norm = "\<lambda>x. if self_normalize_reward self then (x - self_mean self) / self_std self else x"
  let ?v = "\<lparr>ncols = ?n, rows = map (\<lambda>r. drop (?L - 1 - ?n)
                (take (?L - 1) (map (\<lambda>h. ?norm (value_head self h)) r))) (rows ?hs)\<rparr>"
  have b1: "py_slice_bound ?L (- 1) = ?L - 1"
    using nL by (simp add: py_slice_bound_def)
  have b2: "py_slice_bound (?L - Suc 0) (- int ?n) = ?L - Suc ?n"
    using n1 nL by (simp add: py_slice_bound_def)
  have nn: "?L - Suc (?L - Suc ?n) = ?n" using nL by arith
  have fwd: "critic_forward self input_ids (Some action_mask) attention_mask return_output
               = Inr (if return_output then ValuesOutputs ?v outs else Values ?v)"
    using bm by (simp add: critic_forward_def Let_def slice_cols_to_def slice_cols_from_def
        map_tensor_def b1 b2 nn take_map drop_map comp_def)
  have each: "\<forall>b < length (rows ?v). length (rows ?v ! b) = ?n
          \<and> (\<forall>j < ?n. rows ?v ! b ! j = ?norm (value_head self (rows ?hs ! b ! (?L - 1 - ?n + j))))"
  proof (intro allI impI)
    fix b assume "b < length (rows ?v)"
    then have b: "b < length (rows ?hs)" by simp
    then have "rows ?hs ! b \<in> set (rows ?hs)" by simp
    then have len: "length (rows ?hs ! b) = ?L" using wf by (simp add: wf_tensor_def list_all_iff)
    have l: "length (rows ?v ! b) = ?n" using b len nL by simp
    have e: "rows ?v ! b ! j = ?norm (value_head self (rows ?hs ! b ! (?L - 1 - ?n + j)))"
      if "j < ?n" for j
      using b len nL that by simp
    show "length (rows ?v ! b) = ?n
          \<and> (\<forall>j < ?n. rows ?v ! b ! j = ?norm (value_head self (rows ?hs ! b ! (?L - 1 - ?n + j))))"
      using l e by blast
  qed
  show ?thesis
    apply (rule exI [of _ ?v])
    using fwd each by (simp add: Let_def)
qed

text \<open>
  Claim C6. It fails for an action mask without columns: with sequence length 3 and
  \<open>num_actions = 0 \<le> 3 - 1\<close>, the slice \<open>values[:, -0:]\<close> is the whole of
  \<open>values\<close>, so the result has shape (2, 2) and not (2, 0).
\<close>

theorem critic_forward_zero_actions:
  "critic_forward (ex_module\<lparr>self_normalize_reward := False\<rparr>) ()
       (Some \<lparr>ncols = 0, rows = [[], []] :: int list list\<rparr>) None False
     = Inr (Values \<lparr>ncols = 2, rows = [[1, 2], [2, 4]]\<rparr>)"
  by (simp add: critic_forward_def ex_module_def ex_outputs_def value_head_def map_tensor_def
      slice_cols_to_def slice_cols_from_def py_slice_bound_def)

text \<open>
  Claim C10. Without an action mask the critic's forward pass raises: the failure of the
  backbone if it fails, else \<open>AttributeError\<close> at \<open>action_mask.size(1)\<close>. And for no
  input at all does it return the backbone outputs alone, the branch taken when
  \<open>num_actions is None\<close>.
\<close>

theorem critic_forward_action_mask_none:
  "(\<exists>e. critic_forward self input_ids None attention_mask return_output = Inl e)
   \<and> (\<forall>outs. base_model self input_ids attention_mask = Inr outs \<longrightarrow>
         critic_forward self input_ids None attention_mask return_output = Inl AttributeError)
   \<and> (\<forall>action_mask outs.
         critic_forward self input_ids action_mask attention_mask return_output
           \<noteq> Inr (OnlyOutputs outs))"
  by (auto simp add: critic_forward_def Let_def split: sum.splits option.splits)

theorem critic_forward_action_mask_none_witness:
  "critic_forward ex_module () (None :: int tensor2 option) (Some ex_mask) True = Inl AttributeError
   \<and> critic_forward ex_module () (Some ex_mask) (Some ex_mask) True \<noteq> Inr (OnlyOutputs ex_outputs)"
proof -
  have bm: "base_model ex_module () (Some ex_mask) = Inr ex_outputs" by (simp add: ex_module_def)
  note T = critic_forward_action_mask_none [of ex_module "()" "Some ex_mask" True]
  have 1: "critic_forward ex_module () (None :: int tensor2 option) (Some ex_mask) True
      = Inl AttributeError"
    using T [THEN conjunct2, THEN conjunct1, rule_format, OF bm] .
  have 2: "critic_forward ex_module () (Some ex_mask) (Some ex_mask) True \<noteq> Inr (OnlyOutputs ex_outputs)"
    using T [THEN conjunct2, THEN conjunct2, rule_format, of "Some ex_mask" ex_outputs] .
  show ?thesis using 1 2 by blast
qed

section \<open>Construction\<close>

subsection \<open>Auxiliary facts on runs\<close>

lemma fst_bind_run:
  "fst (bind_run m f) = fst m @ (case snd m of Inl e \<Rightarrow> [] | Inr x \<Rightarrow> fst (f x))"
  by (cases m) (auto simp add: bind_run_def split: prod.splits sum.splits)

lemma snd_bind_run:
  "snd (bind_run m f) = (case snd m of Inl e \<Rightarrow> Inl e | Inr x \<Rightarrow> snd (f x))"
  by (cases m) (auto simp add: bind_run_def split: prod.splits sum.splits)

lemma fst_try_except:
  "fst (try_except m h) = fst m @ (case snd m of Inl e \<Rightarrow> fst (h e) | Inr x \<Rightarrow> [])"
  by (cases m) (auto simp add: try_except_def split: prod.splits sum.splits)

lemma snd_try_except:
  "snd (try_except m h) = (case snd m of Inl e \<Rightarrow> snd (h e) | Inr x \<Rightarrow> Inr x)"
  by (cases m) (auto simp add: try_except_def split: prod.splits sum.splits)

lemma run_simps [simp]:
  "fst (emit ev) = [ev]" "snd (emit ev) = Inr ()"
  "fst (call ev res) = [ev]" "snd (call ev res) = res"
  "fst (pure res) = []" "snd (pure res) = res"
  by (simp_all add: emit_def call_def pure_def)



lemma bind_run_call_returned: "bind_run (call ev (Inr x)) f = bind_run (emit ev) (\<lambda>_. f x)"
  by (simp add: bind_run_def call_def emit_def)

lemma in_bind_run_rest:
  assumes "snd (bind_run m f) = Inr y"
    and "\<And>x. snd m = Inr x \<Longrightarrow> snd (f x) = Inr y \<Longrightarrow> ev \<in> set (fst (f x))"
  shows "ev \<in> set (fst (bind_run m f))"
  using assms by (cases "snd m") (auto simp add: fst_bind_run snd_bind_run)

lemma in_bind_run_first:
  assumes "snd (bind_run m f) = Inr y"
    and "\<And>x. snd m = Inr x \<Longrightarrow> ev \<in> set (fst m)"
  shows "ev \<in> set (fst (bind_run m f))"
  using assms by (cases "snd m") (auto simp add: fst_bind_run snd_bind_run)

lemma configure_simps [simp]:
  "hidden_size (configure config opts) = hidden_size config"
  "auto_map (configure config opts) = auto_map config"
  "config_type (configure config opts) = config_type config"
  by (simp_all add: configure_def)

text \<open>The run of the concrete setting: the registry lookup fails, the bundled classes load.\<close>

lemma ex_run:
  "get_llm_for_sequence_regression ex_env ''ckpt'' ''reward'' ex_options
   = ([ConfigFromPretrained ''ckpt'',
       Print ''Failed to load from AutoModel, construct from modelling file.'',
       LoggerInfo ''BASE_MODEL_CLASS: QWenModel, PRETRAINED_MODEL_CLASS: QWenPreTrainedModel'',
       GetClassFromDynamicModule ''modeling_qwen.QWenPreTrainedModel'' ''ckpt'',
       GetClassFromDynamicModule ''modeling_qwen.QWenModel'' ''ckpt'',
       FromPretrained (RewardModel ''modeling_qwen.QWenPreTrainedModel'' ''modeling_qwen.QWenModel'')
         ''ckpt'',
       LoggerInfo ''Monkey patch for Flash Attention, see https://github.com/huggingface/transformers/issues/28052'',
       Normal 0 (1 / 50),
       Normal 0 (1 / 4)],
      Inr \<lparr>model_class = RewardModel ''modeling_qwen.QWenPreTrainedModel'' ''modeling_qwen.QWenModel'',
           model_config = configure ex_config ex_options,
           model_private_config = Some (configure ex_config ex_options), peft_config = None\<rparr>)"
  by (simp add: get_llm_for_sequence_regression_def ex_config_def ex_env_def ex_options_def
      bind_run_def try_except_def
      resolve_registry_def resolve_dynamic_def dynamic_class_names_def load_model_def
      make_dschf_def initialize_value_head_def normal_init_def py_truediv_def emit_def call_def
      pure_def configure_def get_reward_model_def get_critic_model_def py_nth_def py_index_def
      Let_def)

subsection \<open>The assertion at entry\<close>

text \<open>
  Claim C7. For a \<open>model_type\<close> other than \<open>"reward"\<close> and \<open>"critic"\<close> the function
  raises \<open>AssertionError\<close> and has done nothing before: the run has no event, so no
  configuration and no weights were loaded. (Assertions are taken to be enabled.)
\<close>

theorem invalid_model_type_asserts:
  assumes "model_type \<noteq> ''reward''" and "model_type \<noteq> ''critic''"
  shows "get_llm_for_sequence_regression env model_name_or_path model_type opts
     = ([], Inl (AssertionError
          (''invalid model_type: '' @ model_type @ '', should be critic or reward.'')))"
  using assms by (simp add: get_llm_for_sequence_regression_def pure_def)

theorem invalid_model_type_asserts_witness:
  "get_llm_for_sequence_regression ex_env ''ckpt'' ''actor'' ex_options
     = ([], Inl (AssertionError ''invalid model_type: actor, should be critic or reward.''))"
proof -
  have a: "''actor'' \<noteq> ''reward''" by simp
  have b: "''actor'' \<noteq> ''critic''" by simp
  show ?thesis
    using invalid_model_type_asserts [OF a b, of ex_env "''ckpt''" ex_options] by simp
qed

subsection \<open>Mean and standard deviation from the configuration\<close>

lemma round_half_even_error: "\<bar>of_int (round_half_even y) - y\<bar> \<le> 1 / 2"
proof -
  have "of_int \<lfloor>y\<rfloor> \<le> y" "y < of_int \<lfloor>y\<rfloor> + 1" by linarith+
  then show ?thesis by (auto simp add: round_half_even_def Let_def)
qed

text \<open>The stored number is within half a spacing of the given one.\<close>

lemma float32_of_error:
  assumes "float32_of x = Inr y"
  shows "\<bar>y - x\<bar> \<le> 2 powi (binary32_exponent x - 24)"
proof -
  let ?q = "2 powi (binary32_exponent x - 23) :: real"
  have q: "0 < ?q" by simp
  have y: "y = of_int (round_half_even (x / ?q)) * ?q"
    using assms by (simp add: float32_of_def Let_def split: if_splits)
  have "y - x = (of_int (round_half_even (x / ?q)) - x / ?q) * ?q"
    using q by (simp add: y field_simps)
  then have "\<bar>y - x\<bar> = \<bar>of_int (round_half_even (x / ?q)) - x / ?q\<bar> * ?q"
    using q by (simp add: abs_mult)
  also have "\<dots> \<le> (1 / 2) * ?q"
    using round_half_even_error [of "x / ?q"] q by (intro mult_right_mono) simp_all
  also have "\<dots> = 2 powi (binary32_exponent x - 24)"
  proof -
    have "binary32_exponent x - 23 = (binary32_exponent x - 24) + 1" by simp
    moreover have "(2 :: real) powi ((binary32_exponent x - 24) + 1)
        = 2 powi (binary32_exponent x - 24) * 2"
      by (rule power_int_add_1) simp
    ultimately have "?q = 2 powi (binary32_exponent x - 24) * 2"
      by (simp only:)
    then show ?thesis by simp
  qed
  finally show ?thesis .
qed










subsection \<open>Splitting class names\<close>








subsection \<open>The fallback from the registry\<close>







subsection \<open>The initialisation of the value head\<close>

lemma ends_bind_run_rest:
  assumes "snd (bind_run m f) = Inr y"
    and "\<And>x. snd m = Inr x \<Longrightarrow> snd (f x) = Inr y \<Longrightarrow> \<exists>t. fst (f x) = t @ final"
  shows "\<exists>t. fst (bind_run m f) = t @ final"
proof (cases "snd m")
  case (Inl e)
  then show ?thesis using assms(1) by (simp add: snd_bind_run)
next
  case (Inr x)
  then have "snd (f x) = Inr y" using assms(1) by (simp add: snd_bind_run)
  then obtain t where "fst (f x) = t @ final" using assms(2) Inr by blast
  then have "fst (bind_run m f) = (fst m @ t) @ final" using Inr by (simp add: fst_bind_run)
  then show ?thesis by blast
qed

lemma ends_bind_run_return:
  assumes "snd (bind_run m (\<lambda>_. pure res)) = Inr y"
    and "\<And>x. snd m = Inr x \<Longrightarrow> \<exists>t. fst m = t @ final"
  shows "\<exists>t. fst (bind_run m (\<lambda>_. pure res)) = t @ final"
  using assms by (cases "snd m") (auto simp add: fst_bind_run snd_bind_run)

lemma make_dschf_returns:
  "snd (make_dschf dsc) = Inr dschf \<Longrightarrow> dschf = zero_stage3 dsc"
  by (auto simp add: make_dschf_def zero_stage3_def snd_bind_run split: option.splits if_splits)

lemma initialize_value_head_draw:
  assumes "snd (initialize_value_head env config True dschf) = Inr u"
    and "dschf \<longrightarrow> get_rank env = 0"
  shows "\<exists>t. fst (initialize_value_head env config True dschf)
           = t @ [Normal 0 (1 / (real_of_int (hidden_size config) + 1))]"
  using assms
  by (auto simp add: initialize_value_head_def fst_bind_run snd_bind_run py_truediv_def
      normal_init_def split: if_splits sum.splits)

lemma initialize_value_head_other_rank:
  assumes "dschf" and "get_rank env \<noteq> 0"
  shows "fst (initialize_value_head env config True dschf)
           = [LoggerInfo ''initialize value_head for ZeRO-3 reward model training.'',
              GatheredParameters]"
  using assms by (simp add: initialize_value_head_def fst_bind_run snd_bind_run)

text \<open>A run of \<open>load_model\<close> that returns ends as its last step, lines 128-135, does.\<close>

lemma load_model_ends:
  fixes env :: "('c, 'kw) env"
  assumes ok: "snd (load_model env config path opts cls) = Inr model"
    and last_step: "\<And>dschf u. snd (make_dschf (ds_config opts) :: ('c, bool) run) = Inr dschf \<Longrightarrow>
       snd (initialize_value_head env config (init_value_head opts) dschf) = Inr u \<Longrightarrow>
       \<exists>t. fst (initialize_value_head env config (init_value_head opts) dschf) = t @ final"
  shows "\<exists>t. fst (load_model env config path opts cls) = t @ final"
  using ok unfolding load_model_def Let_def
  apply -
  apply (erule ends_bind_run_rest)
  apply (erule ends_bind_run_rest)
  apply (erule ends_bind_run_rest)
  apply (erule ends_bind_run_rest)
  apply (erule ends_bind_run_rest)
  apply (erule ends_bind_run_return)
  apply (erule (1) last_step)
  done

lemma run_ends:
  assumes cfg: "AutoConfig_from_pretrained env path = Inr config0"
    and ret: "snd (get_llm_for_sequence_regression env path model_type opts) = Inr model"
    and rest: "\<And>cls. snd (load_model env (configure config0 opts) path opts cls) = Inr model \<Longrightarrow>
        \<exists>t. fst (load_model env (configure config0 opts) path opts cls) = t @ final"
  shows "\<exists>t. fst (get_llm_for_sequence_regression env path model_type opts) = t @ final"
proof -
  have mt: "model_type = ''critic'' \<or> model_type = ''reward''"
    using ret by (auto simp add: get_llm_for_sequence_regression_def split: if_splits)
  have "get_llm_for_sequence_regression env path model_type opts
      = bind_run (call (ConfigFromPretrained path) (Inr config0)) (\<lambda>config.
          bind_run (try_except (resolve_registry env (configure config opts) model_type)
                      (\<lambda>e. resolve_dynamic env (configure config opts) path model_type))
            (load_model env (configure config opts) path opts))"
    using mt cfg unfolding get_llm_for_sequence_regression_def Let_def by auto
  then have eq: "get_llm_for_sequence_regression env path model_type opts
      = bind_run (emit (ConfigFromPretrained path)) (\<lambda>_.
          bind_run (try_except (resolve_registry env (configure config0 opts) model_type)
                      (\<lambda>e. resolve_dynamic env (configure config0 opts) path model_type))
            (load_model env (configure config0 opts) path opts))"
    by (simp only: bind_run_call_returned)
  show ?thesis
    using ret unfolding eq
    apply -
    apply (erule ends_bind_run_rest)
    apply (erule ends_bind_run_rest)
    apply (erule rest)
    done
qed

text \<open>The same checkpoint under ZeRO stage 3, in a process of rank 1.\<close>

lemma ex_run_stage3_returns:
  "snd (get_llm_for_sequence_regression (ex_env\<lparr>get_rank := 1\<rparr>) ''ckpt'' ''reward''
          (ex_options\<lparr>ds_config := Some [''zero_optimization'' \<mapsto> [''stage'' \<mapsto> 3]]\<rparr>))
   = Inr \<lparr>model_class = RewardModel ''modeling_qwen.QWenPreTrainedModel'' ''modeling_qwen.QWenModel'',
          model_config = configure ex_config ex_options,
          model_private_config = Some (configure ex_config ex_options), peft_config = None\<rparr>"
  by (simp add: get_llm_for_sequence_regression_def ex_config_def ex_env_def ex_options_def
      bind_run_def try_except_def
      resolve_registry_def resolve_dynamic_def dynamic_class_names_def load_model_def
      make_dschf_def initialize_value_head_def normal_init_def py_truediv_def emit_def call_def
      pure_def configure_def get_reward_model_def get_critic_model_def py_nth_def py_index_def
      Let_def)

text \<open>
  Claim C1, as the code has it. A call of \<open>get_llm_for_sequence_regression\<close> with
  \<open>init_value_head\<close> that returns ends with a draw of the value head's weight with mean 0
  and standard deviation \<open>1 / (hidden_size + 1)\<close>, so the weight is what that draw
  leaves, whatever the library drew when it loaded the model. The one exception is the
  gate of lines 129-133: under ZeRO stage 3 a process of another rank than 0 ends inside
  \<open>GatheredParameters\<close> without drawing, the draw being that of the process of rank 0.
\<close>

theorem value_head_init_std:
  fixes env :: "('c, 'kw) env"
  assumes cfg: "AutoConfig_from_pretrained env path = Inr config0"
    and ret: "snd (get_llm_for_sequence_regression env path model_type opts) = Inr model"
    and init: "init_value_head opts"
  shows "((zero_stage3 (ds_config opts) \<longrightarrow> get_rank env = 0) \<longrightarrow>
           (\<exists>t. fst (get_llm_for_sequence_regression env path model_type opts)
                  = t @ [Normal 0 (1 / (real_of_int (hidden_size config0) + 1))]))
       \<and> (zero_stage3 (ds_config opts) \<and> get_rank env \<noteq> 0 \<longrightarrow>
           (\<exists>t. fst (get_llm_for_sequence_regression env path model_type opts)
                  = t @ [LoggerInfo ''initialize value_head for ZeRO-3 reward model training.'',
                         GatheredParameters]))"
proof (intro conjI impI)
  assume who: "zero_stage3 (ds_config opts) \<longrightarrow> get_rank env = 0"
  show "\<exists>t. fst (get_llm_for_sequence_regression env path model_type opts)
                  = t @ [Normal 0 (1 / (real_of_int (hidden_size config0) + 1))]"
  proof (rule run_ends [OF cfg ret], rule load_model_ends, assumption)
    fix dschf u
    assume d: "snd (make_dschf (ds_config opts) :: ('c, bool) run) = Inr dschf"
      and i: "snd (initialize_value_head env (configure config0 opts) (init_value_head opts) dschf)
                = Inr u"
    have "dschf \<longrightarrow> get_rank env = 0" using who make_dschf_returns [OF d] by simp
    then show "\<exists>t. fst (initialize_value_head env (configure config0 opts) (init_value_head opts) dschf)
         = t @ [Normal 0 (1 / (real_of_int (hidden_size config0) + 1))]"
      using initialize_value_head_draw [of env "configure config0 opts" dschf u] i init by simp
  qed
next
  assume who: "zero_stage3 (ds_config opts) \<and> get_rank env \<noteq> 0"
  show "\<exists>t. fst (get_llm_for_sequence_regression env path model_type opts)
                  = t @ [LoggerInfo ''initialize value_head for ZeRO-3 reward model training.'',
                         GatheredParameters]"
  proof (rule run_ends [OF cfg ret], rule load_model_ends, assumption)
    fix dschf u
    assume d: "snd (make_dschf (ds_config opts) :: ('c, bool) run) = Inr dschf"
    have "dschf" using who make_dschf_returns [OF d] by simp
    then have "fst (initialize_value_head env (configure config0 opts) True dschf)
           = [LoggerInfo ''initialize value_head for ZeRO-3 reward model training.'',
              GatheredParameters]"
      using who by (intro initialize_value_head_other_rank) auto
    then show "\<exists>t. fst (initialize_value_head env (configure config0 opts) (init_value_head opts) dschf)
         = t @ [LoggerInfo ''initialize value_head for ZeRO-3 reward model training.'',
                         GatheredParameters]"
      using init by simp
  qed
qed

theorem value_head_init_std_witness:
  "last (fst (get_llm_for_sequence_regression ex_env ''ckpt'' ''reward'' ex_options))
     = Normal 0 (1 / (real_of_int (hidden_size ex_config) + 1))
   \<and> last (fst (get_llm_for_sequence_regression (ex_env\<lparr>get_rank := 1\<rparr>) ''ckpt'' ''reward''
              (ex_options\<lparr>ds_config := Some [''zero_optimization'' \<mapsto> [''stage'' \<mapsto> 3]]\<rparr>)))
     = GatheredParameters"
proof -
  let ?opts3 = "ex_options\<lparr>ds_config := Some [''zero_optimization'' \<mapsto> [''stage'' \<mapsto> 3]]\<rparr>"
  have cfg: "AutoConfig_from_pretrained ex_env ''ckpt'' = Inr ex_config" by (simp add: ex_env_def)
  have ret: "snd (get_llm_for_sequence_regression ex_env ''ckpt'' ''reward'' ex_options)
        = Inr \<lparr>model_class = RewardModel ''modeling_qwen.QWenPreTrainedModel'' ''modeling_qwen.QWenModel'',
               model_config = configure ex_config ex_options,
               model_private_config = Some (configure ex_config ex_options), peft_config = None\<rparr>"
    by (simp add: ex_run)
  have init: "init_value_head ex_options" by (simp add: ex_options_def)
  have who: "zero_stage3 (ds_config ex_options) \<longrightarrow> get_rank ex_env = 0"
    by (simp add: ex_options_def zero_stage3_def)
  obtain t where "fst (get_llm_for_sequence_regression ex_env ''ckpt'' ''reward'' ex_options)
      = t @ [Normal 0 (1 / (real_of_int (hidden_size ex_config) + 1))]"
    using value_head_init_std [OF cfg ret init, THEN conjunct1, THEN mp, OF who] by blast
  then have 1: "last (fst (get_llm_for_sequence_regression ex_env ''ckpt'' ''reward'' ex_options))
     = Normal 0 (1 / (real_of_int (hidden_size ex_config) + 1))"
    by simp
  have cfg3: "AutoConfig_from_pretrained (ex_env\<lparr>get_rank := 1\<rparr>) ''ckpt'' = Inr ex_config"
    by (simp add: ex_env_def)
  have init3: "init_value_head ?opts3" by (simp add: ex_options_def)
  have who3: "zero_stage3 (ds_config ?opts3) \<and> get_rank (ex_env\<lparr>get_rank := 1\<rparr>) \<noteq> 0"
    by (simp add: zero_stage3_def)
  obtain t' where "fst (get_llm_for_sequence_regression (ex_env\<lparr>get_rank := 1\<rparr>) ''ckpt'' ''reward'' ?opts3)
      = t' @ [LoggerInfo ''initialize value_head for ZeRO-3 reward model training.'',
              GatheredParameters]"
    using value_head_init_std [OF cfg3 ex_run_stage3_returns init3, THEN conjunct2, THEN mp,
            OF who3]
    by blast
  then have 2: "last (fst (get_llm_for_sequence_regression (ex_env\<lparr>get_rank := 1\<rparr>) ''ckpt'' ''reward'' ?opts3))
     = GatheredParameters"
    by simp
  show ?thesis using 1 2 by blast
qed

text \<open>
  Claim C1 as stated fails: with hidden size 3 the call ends with a draw of standard
  deviation \<open>1 / 4\<close>, which is not \<open>1 / sqrt (3 + 1) = 1 / 2\<close>.
\<close>

theorem value_head_init_std_sqrt_counterexample:
  "init_value_head ex_options
   \<and> last (fst (get_llm_for_sequence_regression ex_env ''ckpt'' ''reward'' ex_options))
       = Normal 0 (1 / 4)
   \<and> (1 / 4 :: real) \<noteq> 1 / sqrt (real_of_int (hidden_size ex_config) + 1)"
proof -
  have "sqrt (real_of_int (hidden_size ex_config) + 1) = 2"
    by (simp add: ex_config_def)
  then show ?thesis by (simp add: ex_run) (simp add: ex_options_def)
qed

end
